theory Spec2Isabelle
  imports Complex_Main
begin

section \<open>The point-of-sale cart (src/pages/POS.tsx)\<close>

text \<open>
  The component keeps the cart in React state and every handler computes the next cart
  from the current one, so each handler is a function from the cart to the next cart.
  Amounts (\<open>number\<close> in the source, \<open>DECIMAL\<close> in the schema) are exact rationals here:
  the binary rounding of JavaScript numbers is not part of the model. The scale of the
  \<open>DECIMAL(10,2)\<close> columns is: see \<open>to_scale2\<close> below. Quantities and stock levels are integers (\<open>INTEGER\<close> columns; the
  handlers are only ever called with \<open>1\<close>, \<open>quantity + 1\<close> and \<open>quantity - 1\<close>).
  The field \<open>id\<close> of the source is called \<open>ident\<close>.
\<close>

type_synonym uuid = string

record Product =
  ident :: uuid
  name :: string
  selling_price :: rat
  stock_quantity :: int
  vat_rate :: rat

record CartItem = Product +
  quantity :: int
  line_total :: rat

datatype toast = ToastError string | ToastSuccess string

text \<open>The object literal \<open>{...product, quantity: 1, line_total: Number(product.selling_price)}\<close>.\<close>

definition newItem :: "Product \<Rightarrow> CartItem" where
  "newItem product =
     \<lparr>ident = ident product, name = name product, selling_price = selling_price product,
      stock_quantity = stock_quantity product, vat_rate = vat_rate product,
      quantity = 1, line_total = selling_price product\<rparr>"

definition updateQuantity :: "uuid \<Rightarrow> int \<Rightarrow> CartItem list \<Rightarrow> CartItem list" where
  "updateQuantity productId newQuantity cart =
     filter (\<lambda>item. quantity item > 0)
       (map (\<lambda>item.
          if ident item = productId
          then (let q = max 0 newQuantity
                in item\<lparr>quantity := q, line_total := selling_price item * of_int q\<rparr>)
          else item) cart)"

definition removeFromCart :: "uuid \<Rightarrow> CartItem list \<Rightarrow> CartItem list" where
  "removeFromCart productId cart = filter (\<lambda>item. ident item \<noteq> productId) cart"

text \<open>
  \<open>addToCart\<close> returns the toast it shows, if any, and the next cart. The stock check
  reads the stock of the product passed in, not the copy held in the cart.
\<close>

definition addToCart :: "Product \<Rightarrow> CartItem list \<Rightarrow> toast option \<times> CartItem list" where
  "addToCart product cart =
     (case find (\<lambda>item. ident item = ident product) cart of
        Some existingItem \<Rightarrow>
          if quantity existingItem \<ge> stock_quantity product
          then (Some (ToastError ''Not enough stock available''), cart)
          else (None, updateQuantity (ident product) (quantity existingItem + 1) cart)
      | None \<Rightarrow> (None, cart @ [newItem product]))"

record totals =
  subtotal :: rat
  vatAmount :: rat
  total :: rat

text \<open>Both sums are \<open>Array.prototype.reduce\<close> from the left, starting at 0.\<close>

definition calculateTotals :: "CartItem list \<Rightarrow> totals" where
  "calculateTotals cart =
     (let st = foldl (\<lambda>sum item. sum + line_total item) 0 cart;
          va = foldl (\<lambda>sum item.
                 let itemVat = (line_total item * vat_rate item) / (100 + vat_rate item)
                 in sum + itemVat) 0 cart
      in \<lparr>subtotal = st, vatAmount = va, total = st\<rparr>)"

text \<open>The three buttons of a cart line and the product tile, as events.\<close>

datatype cart_op = AddToCart Product | UpdateQuantity uuid int | RemoveFromCart uuid

fun cart_step :: "CartItem list \<Rightarrow> cart_op \<Rightarrow> CartItem list" where
  "cart_step cart (AddToCart product) = snd (addToCart product cart)"
| "cart_step cart (UpdateQuantity productId newQuantity) = updateQuantity productId newQuantity cart"
| "cart_step cart (RemoveFromCart productId) = removeFromCart productId cart"

definition run_cart_ops :: "cart_op list \<Rightarrow> CartItem list \<Rightarrow> CartItem list" where
  "run_cart_ops ops cart = foldl cart_step cart ops"

definition item_ok :: "CartItem \<Rightarrow> bool" where
  "item_ok item \<longleftrightarrow> quantity item \<ge> 1 \<and> line_total item = selling_price item * of_int (quantity item)"

definition cart_wf :: "CartItem list \<Rightarrow> bool" where
  "cart_wf cart \<longleftrightarrow> list_all item_ok cart \<and> distinct (map ident cart)"

section \<open>The backend (supabase/migrations, integrations/supabase/types.ts)\<close>

text \<open>
  The tables the two pages read and write, with the columns they use. A nullable column
  is an \<open>option\<close>. Generated row ids and timestamps are modelled where the client reads
  them back (\<open>sales.id\<close>, \<open>sales.created_at\<close>) and left out elsewhere.
\<close>

datatype app_role = Admin | Manager | Cashier
datatype payment_method = Mpesa | Cash | Card
datatype sale_status = Completed | Voided | Pending

record product_row =
  pr_id :: uuid
  pr_name :: string
  pr_store_id :: uuid
  pr_selling_price :: rat
  pr_stock_quantity :: int
  pr_reorder_level :: "int option"
  pr_vat_rate :: "rat option"
  pr_active :: "bool option"

record sale_row =
  s_id :: uuid
  s_receipt_number :: string
  s_store_id :: uuid
  s_cashier_id :: uuid
  s_subtotal :: rat
  s_vat_amount :: rat
  s_total_amount :: rat
  s_status :: "sale_status option"
  s_created_at :: int

record sale_item_row =
  si_sale_id :: uuid
  si_product_id :: uuid
  si_product_name :: string
  si_quantity :: int
  si_unit_price :: rat
  si_vat_rate :: rat
  si_line_total :: rat

record payment_row =
  pay_sale_id :: uuid
  pay_payment_method :: payment_method
  pay_amount :: rat

text \<open>\<open>profiles\<close> holds (id, store_id) and \<open>user_roles\<close> holds (user_id, role).\<close>

record database =
  profiles :: "(uuid \<times> uuid option) list"
  user_roles :: "(uuid \<times> app_role) list"
  products :: "product_row list"
  sales :: "sale_row list"
  sale_items :: "sale_item_row list"
  payments :: "payment_row list"

text \<open>
  The object handed to \<open>from("sales").insert\<close>, as it is serialised; the server adds id and
  created_at. \<open>vat_amount\<close> is the one number a division produces: when it is not finite
  the request body carries \<open>null\<close> for it (\<open>None\<close> here).
\<close>

record sale_insert =
  new_receipt_number :: string
  new_store_id :: uuid
  new_cashier_id :: uuid
  new_subtotal :: rat
  new_vat_amount :: "rat option"
  new_total_amount :: rat
  new_status :: sale_status

text \<open>
  Every call the client library is asked to make is recorded, in order. \<open>DeleteFrom\<close>
  stands for the library's \<open>delete()\<close>, which is how a client would undo an insert.
\<close>

datatype request =
    InsertSale sale_insert
  | InsertSaleItems "sale_item_row list"
  | InsertPayment payment_row
  | UpdateStock uuid int
  | SelectProducts uuid
  | DeleteFrom string uuid

record server =
  sv_db :: database
  sv_calls :: "request list"

datatype pg_error =
  BackendError | UniqueViolation | ForeignKeyViolation | RlsViolation | NotNullViolation

text \<open>
  What the surroundings decide during one checkout: the browser clock, the id and
  timestamp the server generates, and whether a call is refused for a reason that the
  tables below do not determine (network, session, column range).
\<close>

record backend =
  date_now :: int
  generated_id :: uuid
  db_now :: int
  sale_fault :: bool
  items_fault :: bool
  payment_fault :: bool
  update_fault :: "uuid \<Rightarrow> bool"

text \<open>The SQL function \<open>has_role\<close> and the value selected from \<open>profiles\<close> for a user.\<close>

definition has_role :: "database \<Rightarrow> uuid \<Rightarrow> app_role \<Rightarrow> bool" where
  "has_role d user_id role \<longleftrightarrow> (user_id, role) \<in> set (user_roles d)"

definition profile_store :: "database \<Rightarrow> uuid \<Rightarrow> uuid option" where
  "profile_store d uid =
     (case find (\<lambda>p. fst p = uid) (profiles d) of None \<Rightarrow> None | Some p \<Rightarrow> snd p)"

text \<open>
  Policy "Managers and admins can manage products" (FOR ALL); it is the only policy on
  \<open>products\<close> that admits an UPDATE. Rows a policy hides from an UPDATE are skipped
  without an error.
\<close>

definition can_manage_products :: "database \<Rightarrow> uuid \<Rightarrow> bool" where
  "can_manage_products d uid \<longleftrightarrow> has_role d uid Admin \<or> has_role d uid Manager"

text \<open>
  Policy "Users can view store sales", applied to the row that \<open>insert(...).select()\<close>
  returns and to every SELECT on \<open>sales\<close>; "Users can view store products" likewise.
\<close>

definition can_view_store :: "database \<Rightarrow> uuid \<Rightarrow> uuid \<Rightarrow> bool" where
  "can_view_store d uid store \<longleftrightarrow> profile_store d uid = Some store"

text \<open>
  A \<open>DECIMAL(10,2)\<close> column keeps two decimals: a value with more is rounded to the
  nearest hundredth, a tie going away from zero. (A value too large for the column is
  refused; that is among the refusals of \<open>backend\<close>.)
\<close>

definition to_scale2 :: "rat \<Rightarrow> rat" where
  "to_scale2 x =
     (if x < 0 then - (of_int \<lfloor>- x * 100 + 1 / 2\<rfloor> / 100)
      else of_int \<lfloor>x * 100 + 1 / 2\<rfloor> / 100)"

text \<open>
  \<open>sales.vat_amount\<close> is NOT NULL, \<open>sales.receipt_number\<close> is UNIQUE and \<open>sales.id\<close> is the
  primary key. The INSERT policies only ask for a signed-in user, which \<open>uid\<close> is.
\<close>

definition sale_rejected :: "backend \<Rightarrow> uuid \<Rightarrow> sale_insert \<Rightarrow> database \<Rightarrow> pg_error option" where
  "sale_rejected env uid p d =
     (if sale_fault env then Some BackendError
      else if new_vat_amount p = None then Some NotNullViolation
      else if new_receipt_number p \<in> set (map s_receipt_number (sales d)) then Some UniqueViolation
      else if generated_id env \<in> set (map s_id (sales d)) then Some UniqueViolation
      else if \<not> can_view_store d uid (new_store_id p) then Some RlsViolation
      else None)"

text \<open>
  The row as the table holds it: the three amounts at the scale of their columns. A
  request without a VAT amount is refused above, so the \<open>None\<close> case is never stored.
\<close>

definition stored_sale :: "backend \<Rightarrow> sale_insert \<Rightarrow> sale_row" where
  "stored_sale env p =
     \<lparr>s_id = generated_id env, s_receipt_number = new_receipt_number p,
      s_store_id = new_store_id p, s_cashier_id = new_cashier_id p,
      s_subtotal = to_scale2 (new_subtotal p),
      s_vat_amount = (case new_vat_amount p of None \<Rightarrow> 0 | Some v \<Rightarrow> to_scale2 v),
      s_total_amount = to_scale2 (new_total_amount p), s_status = Some (new_status p),
      s_created_at = db_now env\<rparr>"

definition insert_sale ::
  "backend \<Rightarrow> uuid \<Rightarrow> sale_insert \<Rightarrow> server \<Rightarrow> (pg_error + sale_row) \<times> server" where
  "insert_sale env uid p sv =
     (let sv' = sv\<lparr>sv_calls := sv_calls sv @ [InsertSale p]\<rparr>
      in case sale_rejected env uid p (sv_db sv) of
           Some e \<Rightarrow> (Inl e, sv')
         | None \<Rightarrow>
             (Inr (stored_sale env p),
              sv'\<lparr>sv_db := (sv_db sv)\<lparr>sales := sales (sv_db sv) @ [stored_sale env p]\<rparr>\<rparr>))"

text \<open>
  One INSERT statement for all the items: it stores every row or none.
  \<open>sale_items.product_id\<close> references \<open>products(id)\<close>. The rows are kept as sent: unit
  price and rate are copies of \<open>products\<close> columns of the same scale, and the line total
  is the unit price times a whole quantity.
\<close>

definition items_rejected :: "backend \<Rightarrow> sale_item_row list \<Rightarrow> database \<Rightarrow> pg_error option" where
  "items_rejected env rows d =
     (if items_fault env then Some BackendError
      else if \<not> list_all (\<lambda>r. si_product_id r \<in> set (map pr_id (products d))) rows
        then Some ForeignKeyViolation
      else None)"

definition insert_sale_items ::
  "backend \<Rightarrow> sale_item_row list \<Rightarrow> server \<Rightarrow> pg_error option \<times> server" where
  "insert_sale_items env rows sv =
     (let sv' = sv\<lparr>sv_calls := sv_calls sv @ [InsertSaleItems rows]\<rparr>
      in case items_rejected env rows (sv_db sv) of
           Some e \<Rightarrow> (Some e, sv')
         | None \<Rightarrow>
             (None, sv'\<lparr>sv_db := (sv_db sv)\<lparr>sale_items := sale_items (sv_db sv) @ rows\<rparr>\<rparr>))"

text \<open>\<open>payments.amount\<close> is \<open>DECIMAL(10,2)\<close> as well.\<close>

definition stored_payment :: "payment_row \<Rightarrow> payment_row" where
  "stored_payment row = row\<lparr>pay_amount := to_scale2 (pay_amount row)\<rparr>"

definition insert_payment ::
  "backend \<Rightarrow> payment_row \<Rightarrow> server \<Rightarrow> pg_error option \<times> server" where
  "insert_payment env row sv =
     (let sv' = sv\<lparr>sv_calls := sv_calls sv @ [InsertPayment row]\<rparr>
      in if payment_fault env then (Some BackendError, sv')
         else (None, sv'\<lparr>sv_db := (sv_db sv)\<lparr>payments :=
                  payments (sv_db sv) @ [stored_payment row]\<rparr>\<rparr>))"

text \<open>
  \<open>from("products").update({stock_quantity: v}).eq("id", pid)\<close>: every row with that id
  that the UPDATE policy lets the user touch gets the new value.
\<close>

definition update_stock :: "backend \<Rightarrow> uuid \<Rightarrow> uuid \<Rightarrow> int \<Rightarrow> server \<Rightarrow> server" where
  "update_stock env uid pid v sv =
     (let sv' = sv\<lparr>sv_calls := sv_calls sv @ [UpdateStock pid v]\<rparr>
      in if update_fault env pid then sv'
         else sv'\<lparr>sv_db := (sv_db sv)\<lparr>products :=
                map (\<lambda>r. if pr_id r = pid \<and> can_manage_products (sv_db sv) uid
                          then r\<lparr>pr_stock_quantity := v\<rparr> else r)
                    (products (sv_db sv))\<rparr>\<rparr>)"

definition select_products :: "uuid \<Rightarrow> server \<Rightarrow> server" where
  "select_products store sv = sv\<lparr>sv_calls := sv_calls sv @ [SelectProducts store]\<rparr>"

section \<open>Checkout (handleCheckout in src/pages/POS.tsx)\<close>

text \<open>The template literal \<open>RCP-${Date.now()}\<close> prints the clock in decimal.\<close>

fun show_nat :: "nat \<Rightarrow> string" where
  "show_nat n =
     (if n < 10 then [''0123456789'' ! n]
      else show_nat (n div 10) @ [''0123456789'' ! (n mod 10)])"

definition show_int :: "int \<Rightarrow> string" where
  "show_int i = (if i < 0 then ''-'' @ show_nat (nat (- i)) else show_nat (nat i))"

text \<open>
  The state of the component that the checkout reads and writes. \<open>ui_user\<close> is the id of
  the signed-in user, if any. The product list on screen is not modelled; its reload
  after a sale shows as the request \<open>SelectProducts\<close>.
\<close>

record pos_state =
  ui_cart :: "CartItem list"
  ui_storeId :: "uuid option"
  ui_user :: "uuid option"
  ui_loading :: bool
  ui_toasts :: "toast list"

definition show_toast :: "toast \<Rightarrow> pos_state \<Rightarrow> pos_state" where
  "show_toast t ui = ui\<lparr>ui_toasts := ui_toasts ui @ [t]\<rparr>"

text \<open>The \<open>catch\<close> and \<open>finally\<close> blocks.\<close>

definition checkout_failed :: "pos_state \<Rightarrow> pos_state" where
  "checkout_failed ui = (show_toast (ToastError ''Failed to complete sale'') ui)\<lparr>ui_loading := False\<rparr>"

text \<open>
  The VAT amount is a finite number unless some item has the rate -100: the divisor is
  then 0, JavaScript's quotient is an infinity or NaN, and the running sum stays one.
  \<open>JSON.stringify\<close> writes such a number as \<open>null\<close>.
\<close>

definition vat_finite :: "CartItem list \<Rightarrow> bool" where
  "vat_finite cart \<longleftrightarrow> list_all (\<lambda>item. 100 + vat_rate item \<noteq> 0) cart"

definition sale_payload :: "backend \<Rightarrow> uuid \<Rightarrow> uuid \<Rightarrow> CartItem list \<Rightarrow> sale_insert" where
  "sale_payload env storeId userId cart =
     (let t = calculateTotals cart
      in \<lparr>new_receipt_number = ''RCP-'' @ show_int (date_now env),
          new_store_id = storeId, new_cashier_id = userId,
          new_subtotal = subtotal t,
          new_vat_amount = (if vat_finite cart then Some (vatAmount t) else None),
          new_total_amount = total t, new_status = Completed\<rparr>)"

definition saleItems :: "uuid \<Rightarrow> CartItem list \<Rightarrow> sale_item_row list" where
  "saleItems sale_id cart =
     map (\<lambda>item. \<lparr>si_sale_id = sale_id, si_product_id = ident item, si_product_name = name item,
                   si_quantity = quantity item, si_unit_price = selling_price item,
                   si_vat_rate = vat_rate item, si_line_total = line_total item\<rparr>) cart"

text \<open>The \<open>for\<close> loop over the cart: one awaited update per item, its result not read.\<close>

definition update_stocks :: "backend \<Rightarrow> uuid \<Rightarrow> CartItem list \<Rightarrow> server \<Rightarrow> server" where
  "update_stocks env uid cart sv =
     foldl (\<lambda>s item. update_stock env uid (ident item) (stock_quantity item - quantity item) s) sv cart"

text \<open>
  A missing user makes \<open>user!.id\<close> throw inside the \<open>try\<close> block before any call is made.
  \<open>!storeId\<close> holds for \<open>null\<close> and for the empty string.
\<close>

definition handleCheckout ::
  "backend \<Rightarrow> payment_method \<Rightarrow> pos_state \<Rightarrow> server \<Rightarrow> pos_state \<times> server" where
  "handleCheckout env paymentMethod ui sv =
     (if ui_cart ui = [] then (show_toast (ToastError ''Cart is empty'') ui, sv)
      else case ui_storeId ui of
        None \<Rightarrow> (show_toast (ToastError ''Store not configured'') ui, sv)
      | Some storeId \<Rightarrow>
          if storeId = [] then (show_toast (ToastError ''Store not configured'') ui, sv)
          else case ui_user ui of
            None \<Rightarrow> (checkout_failed ui, sv)
          | Some userId \<Rightarrow>
             (case insert_sale env userId (sale_payload env storeId userId (ui_cart ui)) sv of
                (Inl saleError, sv1) \<Rightarrow> (checkout_failed ui, sv1)
              | (Inr sale, sv1) \<Rightarrow>
                 (case insert_sale_items env (saleItems (s_id sale) (ui_cart ui)) sv1 of
                    (Some itemsError, sv2) \<Rightarrow> (checkout_failed ui, sv2)
                  | (None, sv2) \<Rightarrow>
                     (case insert_payment env
                             \<lparr>pay_sale_id = s_id sale, pay_payment_method = paymentMethod,
                              pay_amount = total (calculateTotals (ui_cart ui))\<rparr> sv2 of
                        (Some paymentError, sv3) \<Rightarrow> (checkout_failed ui, sv3)
                      | (None, sv3) \<Rightarrow>
                         (let sv4 = update_stocks env userId (ui_cart ui) sv3;
                              ui' = show_toast (ToastSuccess (''Sale completed! Receipt: '' @
                                        new_receipt_number (sale_payload env storeId userId (ui_cart ui)))) ui;
                              sv5 = select_products storeId sv4
                          in (ui'\<lparr>ui_cart := [], ui_loading := False\<rparr>, sv5))))))"

text \<open>Checkouts one after another, each from its own browser session.\<close>

fun run_checkouts :: "(backend \<times> payment_method \<times> pos_state) list \<Rightarrow> server \<Rightarrow> server" where
  "run_checkouts [] sv = sv"
| "run_checkouts ((env, paymentMethod, ui) # rest) sv =
     run_checkouts rest (snd (handleCheckout env paymentMethod ui sv))"

section \<open>Dashboard (fetchDashboardData in src/pages/Dashboard.tsx)\<close>










section \<open>The order of the checkout steps, as the specification words it\<close>

text \<open>
  A flow is a list of steps, each a group of calls with the outcome that lets the next
  step start. \<open>issued\<close> gives the calls made when each step starts only after the one
  before it has succeeded.
\<close>

fun issued :: "(request list \<times> bool) list \<Rightarrow> request list" where
  "issued [] = []"
| "issued ((rs, ok) # rest) = rs @ (if ok then issued rest else [])"

text \<open>
  Totals first, on the client; then the sales row, the sale_items rows, the payments row,
  and the stock decrements, one per cart item.
\<close>

definition checkout_steps ::
  "backend \<Rightarrow> payment_method \<Rightarrow> uuid \<Rightarrow> uuid \<Rightarrow> CartItem list \<Rightarrow> database
     \<Rightarrow> (request list \<times> bool) list" where
  "checkout_steps env paymentMethod storeId userId cart d =
     (let t = calculateTotals cart;
          sale = \<lparr>new_receipt_number = ''RCP-'' @ show_int (date_now env),
                  new_store_id = storeId, new_cashier_id = userId,
                  new_subtotal = subtotal t,
          new_vat_amount = (if vat_finite cart then Some (vatAmount t) else None),
                  new_total_amount = total t, new_status = Completed\<rparr>;
          rows = saleItems (generated_id env) cart;
          payment = \<lparr>pay_sale_id = generated_id env, pay_payment_method = paymentMethod,
                     pay_amount = total t\<rparr>
      in [([InsertSale sale], sale_rejected env userId sale d = None),
          ([InsertSaleItems rows], items_rejected env rows d = None),
          ([InsertPayment payment], \<not> payment_fault env),
          (map (\<lambda>item. UpdateStock (ident item) (stock_quantity item - quantity item)) cart, True)])"

section \<open>Sample data\<close>

definition milk :: Product where
  "milk = \<lparr>ident = ''p1'', name = ''Milk'', selling_price = 116, stock_quantity = 2, vat_rate = 16\<rparr>"

definition bread :: Product where
  "bread = \<lparr>ident = ''p2'', name = ''Bread'', selling_price = 54, stock_quantity = 10, vat_rate = 8\<rparr>"

definition milk_line :: "int \<Rightarrow> CartItem" where
  "milk_line q = \<lparr>ident = ''p1'', name = ''Milk'', selling_price = 116, stock_quantity = 2,
                  vat_rate = 16, quantity = q, line_total = 116 * of_int q\<rparr>"

definition bread_line :: "int \<Rightarrow> CartItem" where
  "bread_line q = \<lparr>ident = ''p2'', name = ''Bread'', selling_price = 54, stock_quantity = 10,
                   vat_rate = 8, quantity = q, line_total = 54 * of_int q\<rparr>"

definition milk_row :: product_row where
  "milk_row = \<lparr>pr_id = ''p1'', pr_name = ''Milk'', pr_store_id = ''s1'', pr_selling_price = 116,
               pr_stock_quantity = 2, pr_reorder_level = Some 10, pr_vat_rate = Some 16,
               pr_active = Some True\<rparr>"

definition bread_row :: product_row where
  "bread_row = \<lparr>pr_id = ''p2'', pr_name = ''Bread'', pr_store_id = ''s1'', pr_selling_price = 54,
                pr_stock_quantity = 10, pr_reorder_level = None, pr_vat_rate = Some 8,
                pr_active = Some True\<rparr>"

text \<open>One store with two products; \<open>u1\<close> is a cashier and \<open>u2\<close> a manager.\<close>

definition shop_db :: database where
  "shop_db = \<lparr>profiles = [(''u1'', Some ''s1''), (''u2'', Some ''s1'')],
              user_roles = [(''u1'', Cashier), (''u2'', Manager)],
              products = [milk_row, bread_row],
              sales = [], sale_items = [], payments = []\<rparr>"

definition shop :: server where
  "shop = \<lparr>sv_db = shop_db, sv_calls = []\<rparr>"

definition till :: "uuid \<Rightarrow> CartItem list \<Rightarrow> pos_state" where
  "till uid cart = \<lparr>ui_cart = cart, ui_storeId = Some ''s1'', ui_user = Some uid,
                    ui_loading = False, ui_toasts = []\<rparr>"

definition ok_backend :: backend where
  "ok_backend = \<lparr>date_now = 1730000000000, generated_id = ''sale-1'', db_now = 1730000000123,
                 sale_fault = False, items_fault = False, payment_fault = False,
                 update_fault = (\<lambda>pid. False)\<rparr>"

definition milk_sale :: sale_insert where
  "milk_sale = \<lparr>new_receipt_number = ''RCP-1730000000000'', new_store_id = ''s1'',
                new_cashier_id = ''u1'', new_subtotal = 232, new_vat_amount = Some 32,
                new_total_amount = 232, new_status = Completed\<rparr>"

definition milk_sale_row :: sale_row where
  "milk_sale_row = \<lparr>s_id = ''sale-1'', s_receipt_number = ''RCP-1730000000000'',
                    s_store_id = ''s1'', s_cashier_id = ''u1'', s_subtotal = 232,
                    s_vat_amount = 32, s_total_amount = 232, s_status = Some Completed,
                    s_created_at = 1730000000123\<rparr>"

definition milk_sale_item :: sale_item_row where
  "milk_sale_item = \<lparr>si_sale_id = ''sale-1'', si_product_id = ''p1'', si_product_name = ''Milk'',
                     si_quantity = 2, si_unit_price = 116, si_vat_rate = 16, si_line_total = 232\<rparr>"

definition milk_payment :: payment_row where
  "milk_payment = \<lparr>pay_sale_id = ''sale-1'', pay_payment_method = Cash, pay_amount = 232\<rparr>"







section \<open>Cart lemmas\<close>

lemma foldl_plus_sum_list: "foldl (\<lambda>s x. s + f x) a xs = (a::rat) + sum_list (map f xs)"
  by (induction xs arbitrary: a) (simp_all add: add.assoc)

lemma subtotal_sum_list: "subtotal (calculateTotals cart) = sum_list (map line_total cart)"
  by (simp add: calculateTotals_def Let_def foldl_plus_sum_list)


lemma ident_updateQuantity_subset:
  "map ident (updateQuantity p q cart) = map ident (filter (\<lambda>item. (if ident item = p then max 0 q else quantity item) > 0) cart)"
  by (induction cart) (auto simp: updateQuantity_def Let_def)

lemma distinct_updateQuantity:
  "distinct (map ident cart) \<Longrightarrow> distinct (map ident (updateQuantity p q cart))"
  by (simp add: ident_updateQuantity_subset distinct_map_filter)

lemma item_ok_updateQuantity:
  "list_all item_ok cart \<Longrightarrow> list_all item_ok (updateQuantity p q cart)"
  by (induction cart) (auto simp: updateQuantity_def Let_def item_ok_def)

lemma cart_wf_updateQuantity: "cart_wf cart \<Longrightarrow> cart_wf (updateQuantity p q cart)"
  by (simp add: cart_wf_def distinct_updateQuantity item_ok_updateQuantity)

lemma cart_wf_removeFromCart: "cart_wf cart \<Longrightarrow> cart_wf (removeFromCart p cart)"
  by (simp add: cart_wf_def removeFromCart_def distinct_map_filter list_all_iff)

lemma find_None_ident: "find (\<lambda>item. ident item = p) cart = None \<Longrightarrow> p \<notin> ident ` set cart"
  by (auto simp: find_None_iff)

lemma item_ok_newItem: "item_ok (newItem product)"
  by (simp add: item_ok_def newItem_def)

lemma ident_newItem: "ident (newItem product) = ident product"
  by (simp add: newItem_def)

lemma cart_wf_addToCart: "cart_wf cart \<Longrightarrow> cart_wf (snd (addToCart product cart))"
  by (auto simp: addToCart_def cart_wf_updateQuantity split: option.splits)
     (auto simp: cart_wf_def item_ok_newItem ident_newItem dest: find_None_ident)

lemma cart_wf_step: "cart_wf cart \<Longrightarrow> cart_wf (cart_step cart op)"
  by (cases op) (simp_all add: cart_wf_addToCart cart_wf_updateQuantity cart_wf_removeFromCart)

lemma cart_wf_run: "cart_wf cart \<Longrightarrow> cart_wf (run_cart_ops ops cart)"
  unfolding run_cart_ops_def
  by (induction ops arbitrary: cart) (simp_all add: cart_wf_step)

lemma cart_wf_Nil: "cart_wf []"
  by (simp add: cart_wf_def)

lemma find_Some_unique:
  "distinct (map ident cart) \<Longrightarrow> find (\<lambda>item. ident item = p) cart = Some e \<Longrightarrow>
   item \<in> set cart \<Longrightarrow> ident item = p \<Longrightarrow> item = e"
  by (induction cart) (auto split: if_splits simp: image_iff)

lemma filter_map_keep: "(\<And>x. x \<in> set xs \<Longrightarrow> P (f x)) \<Longrightarrow> filter P (map f xs) = map f xs"
  by (induction xs) simp_all

lemma updateQuantity_increment:
  assumes wf: "cart_wf cart"
    and f: "find (\<lambda>item. ident item = p) cart = Some e"
  shows "updateQuantity p (quantity e + 1) cart =
         map (\<lambda>item. if ident item = p
                then item\<lparr>quantity := quantity item + 1,
                          line_total := selling_price item * of_int (quantity item + 1)\<rparr>
                else item) cart"
proof -
  have d: "distinct (map ident cart)" and ok: "list_all item_ok cart"
    using wf by (simp_all add: cart_wf_def)
  have e: "e \<in> set cart" using f by (auto simp: find_Some_iff in_set_conv_nth)
  have q: "quantity e \<ge> 1" using ok e by (auto simp: list_all_iff item_ok_def)
  have same: "\<And>item. item \<in> set cart \<Longrightarrow> ident item = p \<Longrightarrow> item = e"
    using find_Some_unique [OF d f] by blast
  have pos: "\<And>item. item \<in> set cart \<Longrightarrow> quantity item \<ge> 1"
    using ok by (auto simp: list_all_iff item_ok_def)
  let ?g = "\<lambda>item. if ident item = p
          then (let q = max 0 (quantity e + 1)
                in item\<lparr>quantity := q, line_total := selling_price item * of_int q\<rparr>)
          else item"
  let ?h = "\<lambda>item. if ident item = p
                then item\<lparr>quantity := quantity item + 1,
                          line_total := selling_price item * of_int (quantity item + 1)\<rparr>
                else item"
  have gh: "map ?g cart = map ?h cart"
  proof (rule map_cong [OF refl])
    fix item assume "item \<in> set cart"
    then show "?g item = ?h item" using same [of item] q by (auto simp: Let_def max_def)
  qed
  have keep: "filter (\<lambda>item. quantity item > 0) (map ?h cart) = map ?h cart"
  proof -
    have "quantity (?h item) > 0" if "item \<in> set cart" for item
      using pos [OF that] by simp
    then show ?thesis by (rule filter_map_keep)
  qed
  show ?thesis unfolding updateQuantity_def gh keep ..
qed


section \<open>Backend lemmas\<close>

lemma update_stock_calls:
  "sv_calls (update_stock env uid pid v sv) = sv_calls sv @ [UpdateStock pid v]"
  by (simp add: update_stock_def Let_def)

lemma update_stock_tables:
  "sales (sv_db (update_stock env uid pid v sv)) = sales (sv_db sv)"
  "sale_items (sv_db (update_stock env uid pid v sv)) = sale_items (sv_db sv)"
  "payments (sv_db (update_stock env uid pid v sv)) = payments (sv_db sv)"
  "user_roles (sv_db (update_stock env uid pid v sv)) = user_roles (sv_db sv)"
  "profiles (sv_db (update_stock env uid pid v sv)) = profiles (sv_db sv)"
  by (simp_all add: update_stock_def Let_def)

lemma update_stock_can_manage:
  "can_manage_products (sv_db (update_stock env uid pid v sv)) u = can_manage_products (sv_db sv) u"
  by (simp add: can_manage_products_def has_role_def update_stock_tables)

lemma update_stock_denied:
  "\<not> can_manage_products (sv_db sv) uid \<Longrightarrow>
   sv_db (update_stock env uid pid v sv) = sv_db sv"
  by (simp add: update_stock_def Let_def)

lemma update_stocks_calls:
  "sv_calls (update_stocks env uid cart sv) =
     sv_calls sv @ map (\<lambda>item. UpdateStock (ident item) (stock_quantity item - quantity item)) cart"
  unfolding update_stocks_def
  by (induction cart arbitrary: sv) (simp_all add: update_stock_calls)

lemma update_stocks_tables:
  "sales (sv_db (update_stocks env uid cart sv)) = sales (sv_db sv)"
  "sale_items (sv_db (update_stocks env uid cart sv)) = sale_items (sv_db sv)"
  "payments (sv_db (update_stocks env uid cart sv)) = payments (sv_db sv)"
  "user_roles (sv_db (update_stocks env uid cart sv)) = user_roles (sv_db sv)"
  "profiles (sv_db (update_stocks env uid cart sv)) = profiles (sv_db sv)"
  unfolding update_stocks_def
  by (induction cart arbitrary: sv; simp add: update_stock_tables)+

lemma update_stocks_denied:
  "\<not> can_manage_products (sv_db sv) uid \<Longrightarrow>
   sv_db (update_stocks env uid cart sv) = sv_db sv"
  unfolding update_stocks_def
  by (induction cart arbitrary: sv) (simp_all add: update_stock_denied)

text \<open>What the loop leaves in \<open>products\<close> when the user may update them and no call is lost.\<close>

lemma update_stocks_allowed:
  assumes "can_manage_products (sv_db sv) uid"
    and "\<And>pid. \<not> update_fault env pid"
    and "distinct (map ident cart)"
  shows "products (sv_db (update_stocks env uid cart sv)) =
         map (\<lambda>r. case find (\<lambda>item. ident item = pr_id r) cart of
                     None \<Rightarrow> r
                   | Some item \<Rightarrow> r\<lparr>pr_stock_quantity := stock_quantity item - quantity item\<rparr>)
             (products (sv_db sv))"
  using assms(1,3) unfolding update_stocks_def
proof (induction cart arbitrary: sv)
  case Nil
  then show ?case by (simp add: map_idI)
next
  case (Cons a cart)
  have m: "can_manage_products (sv_db (update_stock env uid (ident a) (stock_quantity a - quantity a) sv)) uid"
    using Cons.prems(1) by (simp add: update_stock_can_manage)
  have d: "distinct (map ident cart)" and n': "ident a \<notin> ident ` set cart"
    using Cons.prems(2) by simp_all
  have n: "\<forall>x \<in> set cart. ident x \<noteq> ident a"
    using n' by (metis imageI)
  have nf: "find (\<lambda>item. ident item = ident a) cart = None"
    using n by (simp add: find_None_iff)
  have p1: "products (sv_db (update_stock env uid (ident a) (stock_quantity a - quantity a) sv)) =
            map (\<lambda>r. if pr_id r = ident a then r\<lparr>pr_stock_quantity := stock_quantity a - quantity a\<rparr> else r)
              (products (sv_db sv))"
    using Cons.prems(1) assms(2) by (simp add: update_stock_def Let_def)
  show ?case
    using Cons.IH [OF m d] nf
    by (simp add: p1 split: option.splits)
qed

lemma update_stock_db_cong:
  "sv_db sv = sv_db sv' \<Longrightarrow>
   sv_db (update_stock env uid pid v sv) = sv_db (update_stock env uid pid v sv')"
  by (simp add: update_stock_def Let_def)

lemma update_stocks_db_cong:
  "sv_db sv = sv_db sv' \<Longrightarrow>
   sv_db (update_stocks env uid cart sv) = sv_db (update_stocks env uid cart sv')"
  unfolding update_stocks_def
proof (induction cart arbitrary: sv sv')
  case Nil
  then show ?case by simp
next
  case (Cons a cart)
  show ?case
    using Cons.IH [OF update_stock_db_cong [OF Cons.prems]] by simp
qed

lemma insert_sale_calls:
  "sv_calls (snd (insert_sale env uid p sv)) = sv_calls sv @ [InsertSale p]"
  by (simp add: insert_sale_def Let_def split: option.splits)

lemma insert_sale_items_calls:
  "sv_calls (snd (insert_sale_items env rows sv)) = sv_calls sv @ [InsertSaleItems rows]"
  by (simp add: insert_sale_items_def Let_def split: option.splits)

lemma insert_payment_calls:
  "sv_calls (snd (insert_payment env row sv)) = sv_calls sv @ [InsertPayment row]"
  by (simp add: insert_payment_def Let_def)

section \<open>Claims about the cart\<close>

text \<open>
  C8. Starting from the empty cart, whatever sequence of \<open>addToCart\<close>, \<open>updateQuantity\<close>
  and \<open>removeFromCart\<close> is applied, every item of the resulting cart has a quantity of at
  least 1 and a line total of selling price times quantity, and no product id occurs twice.
\<close>

theorem cart_invariant:
  "(\<forall>item \<in> set (run_cart_ops ops []).
       quantity item \<ge> 1 \<and> line_total item = selling_price item * of_int (quantity item))
   \<and> distinct (map ident (run_cart_ops ops []))"
  using cart_wf_run [OF cart_wf_Nil, of ops]
  by (simp add: cart_wf_def list_all_iff item_ok_def)

theorem cart_invariant_witness:
  "run_cart_ops [AddToCart milk, AddToCart bread, AddToCart milk, UpdateQuantity ''p2'' 3,
                 UpdateQuantity ''p1'' 0] [] = [bread_line 3]
   \<and> quantity (bread_line 3) \<ge> 1
   \<and> line_total (bread_line 3) = selling_price (bread_line 3) * of_int (quantity (bread_line 3))
   \<and> distinct (map ident [bread_line 3])"
proof -
  have run: "run_cart_ops [AddToCart milk, AddToCart bread, AddToCart milk, UpdateQuantity ''p2'' 3,
                 UpdateQuantity ''p1'' 0] [] = [bread_line 3]"
    by (simp add: run_cart_ops_def addToCart_def updateQuantity_def newItem_def milk_def
          bread_def bread_line_def)
  show ?thesis
    using cart_invariant [of "[AddToCart milk, AddToCart bread, AddToCart milk,
                               UpdateQuantity ''p2'' 3, UpdateQuantity ''p1'' 0]"]
    unfolding run by simp
qed

text \<open>
  C9. The total of \<open>calculateTotals\<close> is the subtotal, that is the sum of the line totals;
  the VAT amount is not added to it.
\<close>

theorem total_is_subtotal:
  "total (calculateTotals cart) = subtotal (calculateTotals cart)
   \<and> total (calculateTotals cart) = sum_list (map line_total cart)"
  by (simp add: calculateTotals_def Let_def foldl_plus_sum_list)

text \<open>
  C10. On any cart reached from the empty one: when the product is in the cart with a
  quantity that has reached the product's stock, \<open>addToCart\<close> shows the error and keeps the
  cart; when it is in the cart below that stock, the quantity of that item goes up by
  exactly 1 (its line total follows, every other item stays) and does not exceed the stock;
  when it is absent, a new item with quantity 1 is appended.
\<close>

theorem addToCart_stock_limit:
  assumes "cart = run_cart_ops ops []"
  shows "(\<forall>existing. find (\<lambda>item. ident item = ident product) cart = Some existing \<longrightarrow>
            (quantity existing \<ge> stock_quantity product \<longrightarrow>
               addToCart product cart = (Some (ToastError ''Not enough stock available''), cart)) \<and>
            (quantity existing < stock_quantity product \<longrightarrow>
               addToCart product cart =
                 (None, map (\<lambda>item. if ident item = ident product
                          then item\<lparr>quantity := quantity item + 1,
                                    line_total := selling_price item * of_int (quantity item + 1)\<rparr>
                          else item) cart) \<and>
               quantity existing + 1 \<le> stock_quantity product))
       \<and> (find (\<lambda>item. ident item = ident product) cart = None \<longrightarrow>
            addToCart product cart = (None, cart @ [newItem product]) \<and>
            quantity (newItem product) = 1)"
proof -
  have wf: "cart_wf cart"
    unfolding assms by (rule cart_wf_run [OF cart_wf_Nil])
  show ?thesis
    using updateQuantity_increment [OF wf]
    by (auto simp: addToCart_def newItem_def)
qed

theorem addToCart_stock_limit_witness:
  "addToCart milk (run_cart_ops [AddToCart milk] []) = (None, [milk_line 2])
   \<and> addToCart milk (run_cart_ops [AddToCart milk, AddToCart milk] []) =
       (Some (ToastError ''Not enough stock available''), [milk_line 2])
   \<and> addToCart bread (run_cart_ops [AddToCart milk] []) = (None, [milk_line 1, bread_line 1])"
proof -
  have r1: "run_cart_ops [AddToCart milk] [] = [milk_line 1]"
    by (simp add: run_cart_ops_def addToCart_def newItem_def milk_def milk_line_def)
  have r2: "run_cart_ops [AddToCart milk, AddToCart milk] [] = [milk_line 2]"
    by (simp add: run_cart_ops_def addToCart_def updateQuantity_def newItem_def milk_def
          milk_line_def)
  show ?thesis
    using addToCart_stock_limit [OF refl, of milk "[AddToCart milk]"]
          addToCart_stock_limit [OF refl, of milk "[AddToCart milk, AddToCart milk]"]
          addToCart_stock_limit [OF refl, of bread "[AddToCart milk]"]
    unfolding r1 r2
    by (simp add: milk_def bread_def milk_line_def bread_line_def newItem_def)
qed

section \<open>Checkout lemmas\<close>

lemma handleCheckout_started:
  assumes "ui_cart ui \<noteq> []" "ui_storeId ui = Some store" "store \<noteq> []" "ui_user ui = Some uid"
  shows "handleCheckout env pm ui sv =
     (case insert_sale env uid (sale_payload env store uid (ui_cart ui)) sv of
        (Inl saleError, sv1) \<Rightarrow> (checkout_failed ui, sv1)
      | (Inr sale, sv1) \<Rightarrow>
         (case insert_sale_items env (saleItems (s_id sale) (ui_cart ui)) sv1 of
            (Some itemsError, sv2) \<Rightarrow> (checkout_failed ui, sv2)
          | (None, sv2) \<Rightarrow>
             (case insert_payment env
                     \<lparr>pay_sale_id = s_id sale, pay_payment_method = pm,
                      pay_amount = total (calculateTotals (ui_cart ui))\<rparr> sv2 of
                (Some paymentError, sv3) \<Rightarrow> (checkout_failed ui, sv3)
              | (None, sv3) \<Rightarrow>
                 (let sv4 = update_stocks env uid (ui_cart ui) sv3;
                      ui' = show_toast (ToastSuccess (''Sale completed! Receipt: '' @
                                new_receipt_number (sale_payload env store uid (ui_cart ui)))) ui;
                      sv5 = select_products store sv4
                  in (ui'\<lparr>ui_cart := [], ui_loading := False\<rparr>, sv5)))))"
  using assms by (simp add: handleCheckout_def)

lemma handleCheckout_not_started:
  assumes "ui_cart ui = [] \<or> ui_storeId ui = None \<or> ui_storeId ui = Some [] \<or> ui_user ui = None"
  shows "snd (handleCheckout env pm ui sv) = sv"
  using assms by (auto simp: handleCheckout_def split: option.splits)

lemma items_rejected_sales:
  "items_rejected env rows (d\<lparr>sales := x\<rparr>) = items_rejected env rows d"
  by (simp add: items_rejected_def)

lemma show_int_sample: "show_int 1730000000000 = ''1730000000000''"
  by (simp add: show_int_def)

lemma handleCheckout_calls:
  assumes "ui_cart ui \<noteq> []" "ui_storeId ui = Some store" "store \<noteq> []" "ui_user ui = Some uid"
  shows "sv_calls (snd (handleCheckout env pm ui sv)) =
           sv_calls sv @ issued (checkout_steps env pm store uid (ui_cart ui) (sv_db sv))
             @ (if list_all snd (checkout_steps env pm store uid (ui_cart ui) (sv_db sv))
                then [SelectProducts store] else [])"
  unfolding handleCheckout_started [OF assms]
  by (simp add: insert_sale_def insert_sale_items_def insert_payment_def select_products_def
        checkout_steps_def sale_payload_def stored_sale_def stored_payment_def update_stocks_calls
        items_rejected_sales Let_def split: option.splits)

text \<open>The tables after a checkout that got as far as its first call, case by case.\<close>

lemma handleCheckout_db:
  assumes "ui_cart ui \<noteq> []" "ui_storeId ui = Some store" "store \<noteq> []" "ui_user ui = Some uid"
  shows "sv_db (snd (handleCheckout env pm ui sv)) =
     (let d = sv_db sv;
          p = sale_payload env store uid (ui_cart ui);
          rows = saleItems (generated_id env) (ui_cart ui);
          d1 = d\<lparr>sales := sales d @ [stored_sale env p]\<rparr>;
          d2 = d1\<lparr>sale_items := sale_items d @ rows\<rparr>;
          d3 = d2\<lparr>payments := payments d @
                  [stored_payment \<lparr>pay_sale_id = generated_id env, pay_payment_method = pm,
                    pay_amount = total (calculateTotals (ui_cart ui))\<rparr>]\<rparr>
      in if sale_rejected env uid p d \<noteq> None then d
         else if items_rejected env rows d \<noteq> None then d1
         else if payment_fault env then d2
         else sv_db (update_stocks env uid (ui_cart ui) \<lparr>sv_db = d3, sv_calls = []\<rparr>))"
  unfolding handleCheckout_started [OF assms]
  by (auto simp: insert_sale_def insert_sale_items_def insert_payment_def select_products_def
        stored_sale_def stored_payment_def items_rejected_sales Let_def
        intro!: update_stocks_db_cong split: option.splits)

lemma handleCheckout_ui:
  assumes "ui_cart ui \<noteq> []" "ui_storeId ui = Some store" "store \<noteq> []" "ui_user ui = Some uid"
  shows "fst (handleCheckout env pm ui sv) =
     (if sale_rejected env uid (sale_payload env store uid (ui_cart ui)) (sv_db sv) \<noteq> None
         \<or> items_rejected env (saleItems (generated_id env) (ui_cart ui)) (sv_db sv) \<noteq> None
         \<or> payment_fault env
      then checkout_failed ui
      else (show_toast (ToastSuccess (''Sale completed! Receipt: '' @ ''RCP-'' @ show_int (date_now env))) ui)
             \<lparr>ui_cart := [], ui_loading := False\<rparr>)"
  unfolding handleCheckout_started [OF assms]
  by (auto simp: insert_sale_def insert_sale_items_def insert_payment_def
        stored_sale_def stored_payment_def sale_payload_def items_rejected_sales Let_def split: option.splits)

lemma handleCheckout_sales:
  "sales (sv_db (snd (handleCheckout env pm ui sv))) = sales (sv_db sv) \<or>
   (\<exists>store uid. ui_storeId ui = Some store \<and> ui_user ui = Some uid \<and>
      sale_rejected env uid (sale_payload env store uid (ui_cart ui)) (sv_db sv) = None \<and>
      sales (sv_db (snd (handleCheckout env pm ui sv))) =
        sales (sv_db sv) @ [stored_sale env (sale_payload env store uid (ui_cart ui))])"
proof (cases "ui_cart ui = [] \<or> ui_storeId ui = None \<or> ui_storeId ui = Some [] \<or> ui_user ui = None")
  case True
  then show ?thesis by (simp add: handleCheckout_not_started)
next
  case False
  then obtain store uid where pre: "ui_cart ui \<noteq> []" "ui_storeId ui = Some store" "store \<noteq> []"
      "ui_user ui = Some uid"
    by auto
  show ?thesis
    using pre(2,4) by (auto simp: handleCheckout_db [OF pre] Let_def update_stocks_tables)
qed


lemma sale_rejected_fresh:
  "sale_rejected env uid p d = None \<Longrightarrow> new_receipt_number p \<notin> set (map s_receipt_number (sales d))"
  by (simp add: sale_rejected_def split: if_splits)

lemma handleCheckout_receipts:
  assumes "distinct (map s_receipt_number (sales (sv_db sv)))"
  shows "distinct (map s_receipt_number (sales (sv_db (snd (handleCheckout env pm ui sv)))))"
  using handleCheckout_sales [of env pm ui sv] assms
  by (auto simp: stored_sale_def stored_payment_def dest!: sale_rejected_fresh)

text \<open>A user who holds neither role leaves \<open>products\<close> as it was, whatever the checkout does.\<close>

lemma checkout_without_role_keeps_products:
  assumes "\<not> can_manage_products (sv_db sv) uid" "ui_user ui = Some uid"
  shows "products (sv_db (snd (handleCheckout env pm ui sv))) = products (sv_db sv)"
proof (cases "ui_cart ui = [] \<or> ui_storeId ui = None \<or> ui_storeId ui = Some []")
  case True
  then have "snd (handleCheckout env pm ui sv) = sv"
    by (intro handleCheckout_not_started) blast
  then show ?thesis by simp
next
  case False
  then obtain store where pre: "ui_cart ui \<noteq> []" "ui_storeId ui = Some store" "store \<noteq> []"
      "ui_user ui = Some uid"
    using assms(2) by auto
  have "\<not> can_manage_products (d\<lparr>sales := a, sale_items := b, payments := c\<rparr>) uid"
    if "d = sv_db sv" for d a b c
    using assms(1) that by (simp add: can_manage_products_def has_role_def)
  then show ?thesis
    by (simp add: handleCheckout_db [OF pre] Let_def update_stocks_denied)
qed

text \<open>
  A manager or admin, with every call served and no product twice in the cart: each
  product row whose id is in the cart gets the stock of the cart item minus the quantity
  sold, and every other row stays.
\<close>

lemma checkout_with_role_sets_stock:
  assumes pre: "ui_cart ui \<noteq> []" "ui_storeId ui = Some store" "store \<noteq> []" "ui_user ui = Some uid"
    and ok: "sale_rejected env uid (sale_payload env store uid (ui_cart ui)) (sv_db sv) = None"
      "items_rejected env (saleItems (generated_id env) (ui_cart ui)) (sv_db sv) = None"
      "\<not> payment_fault env" "\<And>pid. \<not> update_fault env pid"
    and role: "can_manage_products (sv_db sv) uid"
    and dist: "distinct (map ident (ui_cart ui))"
  shows "products (sv_db (snd (handleCheckout env pm ui sv))) =
         map (\<lambda>r. case find (\<lambda>item. ident item = pr_id r) (ui_cart ui) of
                     None \<Rightarrow> r
                   | Some item \<Rightarrow> r\<lparr>pr_stock_quantity := stock_quantity item - quantity item\<rparr>)
             (products (sv_db sv))"
proof -
  have role': "can_manage_products (d\<lparr>sales := a, sale_items := b, payments := c\<rparr>) uid"
    if "d = sv_db sv" for d a b c
    using role that by (simp add: can_manage_products_def has_role_def)
  show ?thesis
    using ok(1,2,3)
    by (simp add: handleCheckout_db [OF pre] Let_def
          update_stocks_allowed [OF _ ok(4) dist] role')
qed

section \<open>Claims about the checkout\<close>

text \<open>
  C6. Once the cart is not empty and store and user are known, the calls of a checkout
  are, in this order: the insert into sales, carrying the totals computed from the cart
  beforehand; the insert into sale_items, made only if the first succeeded; the insert
  into payments, made only if the second succeeded; and one stock update per cart item,
  made only if the third succeeded. The only call after them is the reload of the
  product list, a read.
\<close>

theorem checkout_order:
  assumes "ui_cart ui \<noteq> []" "ui_storeId ui = Some store" "store \<noteq> []" "ui_user ui = Some uid"
  shows "sv_calls (snd (handleCheckout env pm ui sv)) =
           sv_calls sv @ issued (checkout_steps env pm store uid (ui_cart ui) (sv_db sv))
             @ (if list_all snd (checkout_steps env pm store uid (ui_cart ui) (sv_db sv))
                then [SelectProducts store] else [])"
  using assms by (rule handleCheckout_calls)

theorem checkout_order_witness:
  "sv_calls (snd (handleCheckout ok_backend Cash (till ''u1'' [milk_line 2]) shop)) =
     [InsertSale milk_sale, InsertSaleItems [milk_sale_item], InsertPayment milk_payment,
      UpdateStock ''p1'' 0, SelectProducts ''s1'']
   \<and> sv_calls (snd (handleCheckout (ok_backend\<lparr>items_fault := True\<rparr>) Cash
                      (till ''u1'' [milk_line 2]) shop)) =
     [InsertSale milk_sale, InsertSaleItems [milk_sale_item]]"
proof -
  have pre: "ui_cart (till ''u1'' [milk_line 2]) \<noteq> []"
    "ui_storeId (till ''u1'' [milk_line 2]) = Some ''s1''" "''s1'' \<noteq> []"
    "ui_user (till ''u1'' [milk_line 2]) = Some ''u1''"
    by (simp_all add: till_def)
  show ?thesis
    using checkout_order [OF pre, of ok_backend Cash shop]
          checkout_order [OF pre, of "ok_backend\<lparr>items_fault := True\<rparr>" Cash shop]
    by (simp add: checkout_steps_def vat_finite_def till_def shop_def shop_db_def ok_backend_def milk_line_def
          milk_sale_def milk_sale_item_def milk_payment_def milk_row_def bread_row_def
          calculateTotals_def saleItems_def sale_rejected_def items_rejected_def
          can_view_store_def profile_store_def show_int_sample Let_def)
qed

text \<open>
  C1, as the code has it. The three inserts are separate statements and are not atomic as
  a group. When the insert into sales fails, nothing is written and the database is as
  before the checkout. When the insert into sale_items fails, the sales row stays. When
  the insert into payments fails, the sales row and every sale_items row stay. In each
  case the cashier is told that the sale failed.
\<close>

theorem checkout_partial_writes:
  assumes "ui_cart ui \<noteq> []" "ui_storeId ui = Some store" "store \<noteq> []" "ui_user ui = Some uid"
    and "p = sale_payload env store uid (ui_cart ui)"
    and "rows = saleItems (generated_id env) (ui_cart ui)"
    and "d = sv_db sv"
  shows "(sale_rejected env uid p d \<noteq> None \<longrightarrow>
            sv_db (snd (handleCheckout env pm ui sv)) = d \<and>
            fst (handleCheckout env pm ui sv) = checkout_failed ui)
       \<and> (sale_rejected env uid p d = None \<and> items_rejected env rows d \<noteq> None \<longrightarrow>
            sv_db (snd (handleCheckout env pm ui sv)) = d\<lparr>sales := sales d @ [stored_sale env p]\<rparr> \<and>
            fst (handleCheckout env pm ui sv) = checkout_failed ui)
       \<and> (sale_rejected env uid p d = None \<and> items_rejected env rows d = None \<and> payment_fault env \<longrightarrow>
            sv_db (snd (handleCheckout env pm ui sv)) =
              d\<lparr>sales := sales d @ [stored_sale env p], sale_items := sale_items d @ rows\<rparr> \<and>
            fst (handleCheckout env pm ui sv) = checkout_failed ui)"
  unfolding assms(5-7)
  by (simp add: handleCheckout_db [OF assms(1-4)] handleCheckout_ui [OF assms(1-4)] Let_def)

theorem checkout_partial_writes_witness:
  "sv_db (snd (handleCheckout (ok_backend\<lparr>sale_fault := True\<rparr>) Cash (till ''u1'' [milk_line 2]) shop))
     = shop_db
   \<and> sv_db (snd (handleCheckout (ok_backend\<lparr>items_fault := True\<rparr>) Cash (till ''u1'' [milk_line 2]) shop))
     = shop_db\<lparr>sales := [milk_sale_row]\<rparr>
   \<and> sv_db (snd (handleCheckout (ok_backend\<lparr>payment_fault := True\<rparr>) Cash (till ''u1'' [milk_line 2]) shop))
     = shop_db\<lparr>sales := [milk_sale_row], sale_items := [milk_sale_item]\<rparr>"
proof -
  have pre: "ui_cart (till ''u1'' [milk_line 2]) \<noteq> []"
    "ui_storeId (till ''u1'' [milk_line 2]) = Some ''s1''" "''s1'' \<noteq> []"
    "ui_user (till ''u1'' [milk_line 2]) = Some ''u1''"
    by (simp_all add: till_def)
  show ?thesis
    using checkout_partial_writes [OF pre refl refl refl, where env = "ok_backend\<lparr>sale_fault := True\<rparr>" and pm = Cash and sv = shop]
          checkout_partial_writes [OF pre refl refl refl, where env = "ok_backend\<lparr>items_fault := True\<rparr>" and pm = Cash and sv = shop]
          checkout_partial_writes [OF pre refl refl refl, where env = "ok_backend\<lparr>payment_fault := True\<rparr>" and pm = Cash and sv = shop]
    by (simp add: till_def shop_def shop_db_def ok_backend_def milk_line_def
          milk_sale_row_def milk_sale_item_def milk_row_def bread_row_def
          calculateTotals_def saleItems_def sale_payload_def vat_finite_def stored_sale_def stored_payment_def to_scale2_def floor_eq_iff
          sale_rejected_def items_rejected_def
          can_view_store_def profile_store_def show_int_sample Let_def)
qed

text \<open>
  C1 as stated fails: with the insert into payments refused, the checkout reports a
  failure, yet the sales row and the sale_items row it wrote are in the database, which is
  no longer as it was before the checkout.
\<close>

theorem checkout_not_atomic:
  "fst (handleCheckout (ok_backend\<lparr>payment_fault := True\<rparr>) Cash (till ''u1'' [milk_line 2]) shop)
     = checkout_failed (till ''u1'' [milk_line 2])
   \<and> sales (sv_db (snd (handleCheckout (ok_backend\<lparr>payment_fault := True\<rparr>) Cash
                          (till ''u1'' [milk_line 2]) shop))) = [milk_sale_row]
   \<and> sale_items (sv_db (snd (handleCheckout (ok_backend\<lparr>payment_fault := True\<rparr>) Cash
                          (till ''u1'' [milk_line 2]) shop))) = [milk_sale_item]
   \<and> payments (sv_db (snd (handleCheckout (ok_backend\<lparr>payment_fault := True\<rparr>) Cash
                          (till ''u1'' [milk_line 2]) shop))) = []
   \<and> sv_db (snd (handleCheckout (ok_backend\<lparr>payment_fault := True\<rparr>) Cash
                          (till ''u1'' [milk_line 2]) shop)) \<noteq> sv_db shop"
proof -
  have pre: "ui_cart (till ''u1'' [milk_line 2]) \<noteq> []"
    "ui_storeId (till ''u1'' [milk_line 2]) = Some ''s1''" "''s1'' \<noteq> []"
    "ui_user (till ''u1'' [milk_line 2]) = Some ''u1''"
    by (simp_all add: till_def)
  have db: "sv_db (snd (handleCheckout (ok_backend\<lparr>payment_fault := True\<rparr>) Cash
                          (till ''u1'' [milk_line 2]) shop))
            = shop_db\<lparr>sales := [milk_sale_row], sale_items := [milk_sale_item]\<rparr>"
    unfolding handleCheckout_db [OF pre]
    by (simp add: till_def shop_def shop_db_def ok_backend_def
          milk_line_def milk_sale_row_def milk_sale_item_def milk_row_def bread_row_def
          calculateTotals_def saleItems_def sale_payload_def vat_finite_def stored_sale_def stored_payment_def to_scale2_def floor_eq_iff
          sale_rejected_def items_rejected_def
          can_view_store_def profile_store_def show_int_sample Let_def)
  have ui: "fst (handleCheckout (ok_backend\<lparr>payment_fault := True\<rparr>) Cash (till ''u1'' [milk_line 2]) shop)
     = checkout_failed (till ''u1'' [milk_line 2])"
    unfolding handleCheckout_ui [OF pre] by (simp add: ok_backend_def)
  have ne: "shop_db\<lparr>sales := [milk_sale_row], sale_items := [milk_sale_item]\<rparr> \<noteq> shop_db"
  proof
    assume "shop_db\<lparr>sales := [milk_sale_row], sale_items := [milk_sale_item]\<rparr> = shop_db"
    then have "sales (shop_db\<lparr>sales := [milk_sale_row], sale_items := [milk_sale_item]\<rparr>) = sales shop_db"
      by simp
    then show False by (simp add: shop_db_def)
  qed
  show ?thesis
    unfolding db ui using ne by (simp add: shop_def shop_db_def)
qed

text \<open>
  C2. Whenever the insert into payments is the one that fails, the checkout has made
  exactly three calls, the three inserts, none of them a delete; the sales row and the
  sale_items rows written before are in the database afterwards, no payment row is, and
  the cashier is told that the sale failed.
\<close>

theorem payment_failure_leaves_rows:
  assumes "ui_cart ui \<noteq> []" "ui_storeId ui = Some store" "store \<noteq> []" "ui_user ui = Some uid"
    and "sale_rejected env uid (sale_payload env store uid (ui_cart ui)) (sv_db sv) = None"
    and "items_rejected env (saleItems (generated_id env) (ui_cart ui)) (sv_db sv) = None"
    and "payment_fault env"
  shows "sales (sv_db (snd (handleCheckout env pm ui sv))) =
           sales (sv_db sv) @ [stored_sale env (sale_payload env store uid (ui_cart ui))]
       \<and> sale_items (sv_db (snd (handleCheckout env pm ui sv))) =
           sale_items (sv_db sv) @ saleItems (generated_id env) (ui_cart ui)
       \<and> payments (sv_db (snd (handleCheckout env pm ui sv))) = payments (sv_db sv)
       \<and> sv_calls (snd (handleCheckout env pm ui sv)) =
           sv_calls sv @
             [InsertSale (sale_payload env store uid (ui_cart ui)),
              InsertSaleItems (saleItems (generated_id env) (ui_cart ui)),
              InsertPayment \<lparr>pay_sale_id = generated_id env, pay_payment_method = pm,
                             pay_amount = total (calculateTotals (ui_cart ui))\<rparr>]
       \<and> (\<forall>tbl rid. DeleteFrom tbl rid \<notin>
             set (drop (length (sv_calls sv)) (sv_calls (snd (handleCheckout env pm ui sv)))))
       \<and> fst (handleCheckout env pm ui sv) = checkout_failed ui"
  using assms(5-7)
  by (simp add: handleCheckout_db [OF assms(1-4)] handleCheckout_ui [OF assms(1-4)]
        handleCheckout_calls [OF assms(1-4)] checkout_steps_def sale_payload_def vat_finite_def Let_def)

theorem payment_failure_leaves_rows_witness:
  "sales (sv_db (snd (handleCheckout (ok_backend\<lparr>payment_fault := True\<rparr>) Mpesa
                        (till ''u2'' [milk_line 1]) shop))) =
     [\<lparr>s_id = ''sale-1'', s_receipt_number = ''RCP-1730000000000'', s_store_id = ''s1'',
       s_cashier_id = ''u2'', s_subtotal = 116, s_vat_amount = 16, s_total_amount = 116,
       s_status = Some Completed, s_created_at = 1730000000123\<rparr>]
   \<and> sale_items (sv_db (snd (handleCheckout (ok_backend\<lparr>payment_fault := True\<rparr>) Mpesa
                        (till ''u2'' [milk_line 1]) shop))) =
     [\<lparr>si_sale_id = ''sale-1'', si_product_id = ''p1'', si_product_name = ''Milk'',
       si_quantity = 1, si_unit_price = 116, si_vat_rate = 16, si_line_total = 116\<rparr>]
   \<and> payments (sv_db (snd (handleCheckout (ok_backend\<lparr>payment_fault := True\<rparr>) Mpesa
                        (till ''u2'' [milk_line 1]) shop))) = []
   \<and> length (sv_calls (snd (handleCheckout (ok_backend\<lparr>payment_fault := True\<rparr>) Mpesa
                        (till ''u2'' [milk_line 1]) shop))) = 3"
proof -
  have pre: "ui_cart (till ''u2'' [milk_line 1]) \<noteq> []"
    "ui_storeId (till ''u2'' [milk_line 1]) = Some ''s1''" "''s1'' \<noteq> []"
    "ui_user (till ''u2'' [milk_line 1]) = Some ''u2''"
    by (simp_all add: till_def)
  have ok: "sale_rejected (ok_backend\<lparr>payment_fault := True\<rparr>) ''u2''
              (sale_payload (ok_backend\<lparr>payment_fault := True\<rparr>) ''s1'' ''u2''
                 (ui_cart (till ''u2'' [milk_line 1]))) (sv_db shop) = None"
    "items_rejected (ok_backend\<lparr>payment_fault := True\<rparr>)
       (saleItems (generated_id (ok_backend\<lparr>payment_fault := True\<rparr>))
          (ui_cart (till ''u2'' [milk_line 1]))) (sv_db shop) = None"
    "payment_fault (ok_backend\<lparr>payment_fault := True\<rparr>)"
    by (simp_all add: till_def shop_def shop_db_def ok_backend_def milk_line_def
          milk_row_def bread_row_def saleItems_def sale_payload_def vat_finite_def
          sale_rejected_def items_rejected_def can_view_store_def profile_store_def Let_def)
  show ?thesis
    using payment_failure_leaves_rows [OF pre ok, where pm = Mpesa]
    by (simp add: till_def shop_def shop_db_def ok_backend_def milk_line_def
          calculateTotals_def saleItems_def sale_payload_def vat_finite_def stored_sale_def stored_payment_def to_scale2_def floor_eq_iff
          show_int_sample Let_def)
qed




text \<open>
  C4. The receipt numbers of the sales rows stay pairwise different through any series
  of checkouts: a checkout whose generated number is already taken (two checkouts within
  the same millisecond of the clock) is refused by the UNIQUE column and adds no sale.
\<close>

theorem receipt_numbers_unique:
  assumes "distinct (map s_receipt_number (sales (sv_db sv)))"
  shows "distinct (map s_receipt_number (sales (sv_db (run_checkouts evs sv))))"
  using assms
proof (induction evs arbitrary: sv)
  case Nil
  then show ?case by simp
next
  case (Cons ev evs)
  obtain env pm ui where ev: "ev = (env, pm, ui)"
    by (cases ev) auto
  show ?case
    unfolding ev run_checkouts.simps
    by (rule Cons.IH) (rule handleCheckout_receipts [OF Cons.prems])
qed

theorem receipt_numbers_unique_witness:
  "distinct (map s_receipt_number (sales (sv_db shop)))
   \<and> map s_receipt_number (sales (sv_db (run_checkouts
         [(ok_backend, Cash, till ''u1'' [milk_line 2]),
          (ok_backend\<lparr>generated_id := ''sale-2''\<rparr>, Card, till ''u2'' [bread_line 1]),
          (ok_backend\<lparr>generated_id := ''sale-3'', date_now := 1730000000001\<rparr>, Mpesa,
             till ''u2'' [bread_line 1])] shop)))
       = [''RCP-1730000000000'', ''RCP-1730000000001'']
   \<and> distinct [''RCP-1730000000000'', ''RCP-1730000000001'']"
proof -
  have other: "show_int 1730000000001 = ''1730000000001''"
    by (simp add: show_int_def)
  have run: "map s_receipt_number (sales (sv_db (run_checkouts
         [(ok_backend, Cash, till ''u1'' [milk_line 2]),
          (ok_backend\<lparr>generated_id := ''sale-2''\<rparr>, Card, till ''u2'' [bread_line 1]),
          (ok_backend\<lparr>generated_id := ''sale-3'', date_now := 1730000000001\<rparr>, Mpesa,
             till ''u2'' [bread_line 1])] shop)))
       = [''RCP-1730000000000'', ''RCP-1730000000001'']"
    by (simp add: handleCheckout_def insert_sale_def insert_sale_items_def insert_payment_def
          update_stocks_def update_stock_def select_products_def
          till_def shop_def shop_db_def ok_backend_def milk_line_def bread_line_def
          milk_row_def bread_row_def calculateTotals_def saleItems_def sale_payload_def vat_finite_def
          stored_sale_def stored_payment_def to_scale2_def floor_eq_iff sale_rejected_def items_rejected_def can_view_store_def
          can_manage_products_def has_role_def
          profile_store_def show_int_sample other Let_def)
  have start: "distinct (map s_receipt_number (sales (sv_db shop)))"
    by (simp add: shop_def shop_db_def)
  show ?thesis
    using receipt_numbers_unique [OF start, of
         "[(ok_backend, Cash, till ''u1'' [milk_line 2]),
          (ok_backend\<lparr>generated_id := ''sale-2''\<rparr>, Card, till ''u2'' [bread_line 1]),
          (ok_backend\<lparr>generated_id := ''sale-3'', date_now := 1730000000001\<rparr>, Mpesa,
             till ''u2'' [bread_line 1])]"] start
    unfolding run by simp
qed

text \<open>
  C5 fails for a cashier. User \<open>u1\<close> holds the role cashier only. The checkout goes through
  (the sale, its item and the payment are stored, the success toast is shown) and the
  update of product \<open>p1\<close> to 2 - 2 = 0 is sent, but the only policy that admits an UPDATE
  on products asks for the admin or manager role, so no row is touched: the stock of
  \<open>p1\<close> is still 2.
\<close>

theorem cashier_checkout_leaves_stock:
  "ui_toasts (fst (handleCheckout ok_backend Cash (till ''u1'' [milk_line 2]) shop)) =
     [ToastSuccess ''Sale completed! Receipt: RCP-1730000000000'']
   \<and> sv_calls (snd (handleCheckout ok_backend Cash (till ''u1'' [milk_line 2]) shop)) =
       [InsertSale milk_sale, InsertSaleItems [milk_sale_item], InsertPayment milk_payment,
        UpdateStock ''p1'' 0, SelectProducts ''s1'']
   \<and> sv_db (snd (handleCheckout ok_backend Cash (till ''u1'' [milk_line 2]) shop)) =
       shop_db\<lparr>sales := [milk_sale_row], sale_items := [milk_sale_item],
                payments := [milk_payment]\<rparr>
   \<and> products (sv_db (snd (handleCheckout ok_backend Cash (till ''u1'' [milk_line 2]) shop))) =
       [milk_row, bread_row]
   \<and> pr_stock_quantity milk_row = 2"
  by (simp add: handleCheckout_def insert_sale_def insert_sale_items_def insert_payment_def
        update_stocks_def update_stock_def select_products_def show_toast_def
        till_def shop_def shop_db_def ok_backend_def milk_line_def
        milk_sale_def milk_sale_row_def milk_sale_item_def milk_payment_def
        milk_row_def bread_row_def calculateTotals_def saleItems_def sale_payload_def vat_finite_def
        stored_sale_def stored_payment_def to_scale2_def floor_eq_iff sale_rejected_def items_rejected_def can_view_store_def
        can_manage_products_def has_role_def
        profile_store_def show_int_sample Let_def)

text \<open>The same sale rung up by the manager \<open>u2\<close> does bring the stock of \<open>p1\<close> to 0.\<close>

lemma manager_checkout_sets_stock:
  "products (sv_db (snd (handleCheckout ok_backend Cash (till ''u2'' [milk_line 2]) shop))) =
       [milk_row\<lparr>pr_stock_quantity := 0\<rparr>, bread_row]"
  by (simp add: handleCheckout_def insert_sale_def insert_sale_items_def insert_payment_def
        update_stocks_def update_stock_def select_products_def show_toast_def
        till_def shop_def shop_db_def ok_backend_def milk_line_def
        milk_row_def bread_row_def calculateTotals_def saleItems_def sale_payload_def vat_finite_def
        stored_sale_def stored_payment_def to_scale2_def floor_eq_iff sale_rejected_def items_rejected_def can_view_store_def
        can_manage_products_def has_role_def
        profile_store_def show_int_sample Let_def)

section \<open>Claims about the dashboard\<close>




end
